theory Spec2Isabelle
  imports Complex_Main "HOL-Library.AList"
begin

section \<open>JavaScript values\<close>

text \<open>
  The handlers are JavaScript, so the values they receive are dynamically typed. A
  number is a double; the model keeps the finite ones as reals (rounding is not
  modelled) besides NaN and the two infinities. A string is a list of bytes (UTF-8).
  An object is the list of its own properties, each name once.
\<close>

datatype jsnum = NaN | Fin real | PosInf | NegInf

datatype jsval =
    JUndefined
  | JNull
  | JBool bool
  | JNum jsnum
  | JStr string
  | JArr "jsval list"
  | JObj "(string \<times> jsval) list"

text \<open>What \<open>!v\<close> negates: \<open>undefined\<close>, \<open>null\<close>, \<open>false\<close>, \<open>0\<close>, \<open>NaN\<close> and
  the empty string are falsy, everything else is truthy.\<close>

fun truthy :: "jsval \<Rightarrow> bool" where
  "truthy JUndefined = False"
| "truthy JNull = False"
| "truthy (JBool b) = b"
| "truthy (JNum n) = (n \<noteq> NaN \<and> n \<noteq> Fin 0)"
| "truthy (JStr s) = (s \<noteq> [])"
| "truthy (JArr xs) = True"
| "truthy (JObj fs) = True"

datatype js_error =
    TypeError
  | URIError
  | ValidationException
  | MarshallError
  | NotFound
  | TransportError string

text \<open>
  Reading a property (\<open>v.name\<close>, or \<open>const { name } = v\<close>) of \<open>undefined\<close> or \<open>null\<close>
  throws a TypeError; an object yields its own property or \<open>undefined\<close>; any other
  value is boxed and yields \<open>undefined\<close>. The names the handlers read (\<open>idPedido\<close>,
  \<open>emailCliente\<close>, \<open>nomeCliente\<close>, \<open>valor\<close>, \<open>status\<close>, \<open>referenciaNota\<close>,
  \<open>dataEnvio\<close>, \<open>data\<close>) are defined by no prototype.
\<close>

fun get_prop :: "jsval \<Rightarrow> string \<Rightarrow> js_error + jsval" where
  "get_prop JUndefined k = Inl TypeError"
| "get_prop JNull k = Inl TypeError"
| "get_prop (JObj fs) k = Inr (case map_of fs k of None \<Rightarrow> JUndefined | Some v \<Rightarrow> v)"
| "get_prop v k = Inr JUndefined"

section \<open>The record store and the world the handlers run in\<close>

text \<open>
  The DynamoDB table holds one item per \<open>idPedido\<close> (a string key). An item is the
  list of its attributes. The world also keeps the list of the commands sent to the
  table and to the bucket, so that "no store access" can be stated.
\<close>

type_synonym item = "(string \<times> jsval) list"
type_synonym table = "(string \<times> item) list"

record s3object =
  content :: string
  contentType :: string
  metadata :: "(string \<times> string) list"

type_synonym bucket = "((string \<times> string) \<times> s3object) list"

datatype command =
    GetCommand jsval
  | PutCommand item
  | UpdateCommand jsval "(string \<times> jsval) list"
  | ScanCommand
  | HeadObjectCommand string string
  | PutObjectCommand string string

record world =
  pedidos :: table
  objects :: bucket
  calls :: "command list"

definition sent :: "command \<Rightarrow> world \<Rightarrow> world" where
  "sent c w = w\<lparr>calls := calls w @ [c]\<rparr>"

text \<open>The table's key is a string of 1 to 2048 bytes; the service refuses any other
  key with a validation exception.\<close>

definition valid_key :: "jsval \<Rightarrow> string option" where
  "valid_key k =
     (case k of
        JStr s \<Rightarrow> (if s = [] \<or> 2048 < length s then None else Some s)
      | _ \<Rightarrow> None)"

definition send_Get :: "jsval \<Rightarrow> world \<Rightarrow> (js_error + item option) \<times> world" where
  "send_Get k w =
     (case valid_key k of
        None \<Rightarrow> (Inl ValidationException, sent (GetCommand k) w)
      | Some s \<Rightarrow> (Inr (map_of (pedidos w) s), sent (GetCommand k) w))"

text \<open>
  \<open>UpdateCommand\<close> with a \<open>SET\<close> expression and no condition: the attributes are
  assigned in the item of that key, and the service creates the item (the key and the
  assigned attributes) when the table has none. \<open>ReturnValues: ALL_NEW\<close> gives the
  item as it is after the update.
\<close>

definition set_attrs :: "(string \<times> jsval) list \<Rightarrow> item \<Rightarrow> item" where
  "set_attrs as it = foldl (\<lambda>i (a, v). AList.update a v i) it as"

definition send_Update ::
  "jsval \<Rightarrow> (string \<times> jsval) list \<Rightarrow> world \<Rightarrow> (js_error + item) \<times> world" where
  "send_Update k as w =
     (case valid_key k of
        None \<Rightarrow> (Inl ValidationException, sent (UpdateCommand k as) w)
      | Some s \<Rightarrow>
          (let old = (case map_of (pedidos w) s of
                        None \<Rightarrow> [(''idPedido'', k)]
                      | Some it \<Rightarrow> it);
               new = set_attrs as old
           in (Inr new, sent (UpdateCommand k as) (w\<lparr>pedidos := AList.update s new (pedidos w)\<rparr>))))"

record response =
  statusCode :: nat
  payload :: jsval

text \<open>The human-readable \<open>message\<close> and \<open>error\<close> texts of the response bodies are
  left out; \<open>payload\<close> holds the data a body carries.\<close>

definition reply :: "nat \<Rightarrow> jsval \<Rightarrow> response" where
  "reply c p = \<lparr>statusCode = c, payload = p\<rparr>"

section \<open>lambda-preparacao\<close>

text \<open>
  \<open>body\<close> is the value bound by lines 18 to 23: \<open>event.body\<close> itself, or what
  \<open>JSON.parse\<close> made of it when it was a string that parses.
\<close>

definition preparacao_handler :: "jsval \<Rightarrow> world \<Rightarrow> response \<times> world" where
  "preparacao_handler body w =
     (case get_prop body ''idPedido'' of
        Inl e \<Rightarrow> (reply 500 JNull, w)
      | Inr idPedido \<Rightarrow>
          if \<not> truthy idPedido then (reply 400 JNull, w)
          else
            (case send_Get idPedido w of
               (Inl e, w1) \<Rightarrow> (reply 500 JNull, w1)
             | (Inr None, w1) \<Rightarrow> (reply 404 JNull, w1)
             | (Inr (Some Item), w1) \<Rightarrow>
                 (case send_Update idPedido [(''status'', JStr ''PREPARACAO'')] w1 of
                    (Inl e, w2) \<Rightarrow> (reply 500 JNull, w2)
                  | (Inr attrs, w2) \<Rightarrow> (reply 200 (JObj [(''pedido'', JObj attrs)]), w2))))"

section \<open>Strings, keys and dates\<close>

text \<open>Decimal digits of a natural number, as \<open>String(n)\<close> writes them.\<close>

definition digit_char :: "nat \<Rightarrow> char" where
  "digit_char d = char_of (48 + d)"

fun dec_of_nat :: "nat \<Rightarrow> string" where
  "dec_of_nat n = (if n < 10 then [digit_char n] else dec_of_nat (n div 10) @ [digit_char (n mod 10)])"

declare dec_of_nat.simps [simp del]

definition dec_of_int :: "int \<Rightarrow> string" where
  "dec_of_int i = (if i < 0 then CHR ''-'' # dec_of_nat (nat (- i)) else dec_of_nat (nat i))"

definition pad :: "nat \<Rightarrow> nat \<Rightarrow> string" where
  "pad w n = replicate (w - length (dec_of_nat n)) CHR ''0'' @ dec_of_nat n"

text \<open>
  A time value is the number of milliseconds since the epoch. \<open>civil_from_days\<close> is
  the proleptic Gregorian date of a day number and \<open>days_from_civil\<close> its inverse;
  \<open>toISOString\<close> writes \<open>YYYY-MM-DDTHH:mm:ss.sssZ\<close> (a signed six-digit year
  outside 0..9999), as \<open>Date.prototype.toISOString\<close> does.
\<close>

definition civil_from_days :: "int \<Rightarrow> int \<times> int \<times> int" where
  "civil_from_days days =
     (let z = days + 719468;
          era = z div 146097;
          doe = z - era * 146097;
          yoe = (doe - doe div 1460 + doe div 36524 - doe div 146096) div 365;
          y = yoe + era * 400;
          doy = doe - (365 * yoe + yoe div 4 - yoe div 100);
          mp = (5 * doy + 2) div 153;
          d = doy - (153 * mp + 2) div 5 + 1;
          m = (if mp < 10 then mp + 3 else mp - 9)
      in (if m \<le> 2 then y + 1 else y, m, d))"

definition days_from_civil :: "int \<Rightarrow> int \<Rightarrow> int \<Rightarrow> int" where
  "days_from_civil y0 m d =
     (let y = (if m \<le> 2 then y0 - 1 else y0);
          era = y div 400;
          yoe = y - era * 400;
          doy = (153 * (if m > 2 then m - 3 else m + 9) + 2) div 5 + d - 1;
          doe = yoe * 365 + yoe div 4 - yoe div 100 + doy
      in era * 146097 + doe - 719468)"

definition toISOString :: "int \<Rightarrow> string" where
  "toISOString t =
     (let days = t div 86400000;
          ms = t mod 86400000;
          (y, m, d) = civil_from_days days;
          year = (if 0 \<le> y \<and> y \<le> 9999 then pad 4 (nat y)
                  else (if y < 0 then CHR ''-'' else CHR ''+'') # pad 6 (nat \<bar>y\<bar>))
      in year @ ''-'' @ pad 2 (nat m) @ ''-'' @ pad 2 (nat d) @ ''T''
         @ pad 2 (nat (ms div 3600000)) @ '':'' @ pad 2 (nat (ms div 60000 mod 60)) @ '':''
         @ pad 2 (nat (ms div 1000 mod 60)) @ ''.'' @ pad 3 (nat (ms mod 1000)) @ ''Z'')"

definition is_digit :: "char \<Rightarrow> bool" where
  "is_digit c = (48 \<le> (of_char c :: nat) \<and> (of_char c :: nat) \<le> 57)"

definition digit_val :: "char \<Rightarrow> nat" where
  "digit_val c = of_char c - 48"

definition nat_of_digits :: "string \<Rightarrow> nat" where
  "nat_of_digits ds = foldl (\<lambda>a c. 10 * a + digit_val c) 0 ds"

definition days_in_month :: "int \<Rightarrow> int \<Rightarrow> int" where
  "days_in_month y m =
     (if m = 2 then (if y mod 4 = 0 \<and> (y mod 100 \<noteq> 0 \<or> y mod 400 = 0) then 29 else 28)
      else if m = 4 \<or> m = 6 \<or> m = 9 \<or> m = 11 then 30 else 31)"

text \<open>
  Reading a date back. The model reads the one format this system writes, the 24
  characters of \<open>toISOString\<close> with a four-digit year; any other string is an invalid
  date here (what else \<open>Date.parse\<close> accepts is implementation-defined).
\<close>

definition parse_iso :: "string \<Rightarrow> int option" where
  "parse_iso s =
     (if length s = 24
         \<and> s ! 4 = CHR ''-'' \<and> s ! 7 = CHR ''-'' \<and> s ! 10 = CHR ''T'' \<and> s ! 13 = CHR '':''
         \<and> s ! 16 = CHR '':'' \<and> s ! 19 = CHR ''.'' \<and> s ! 23 = CHR ''Z''
         \<and> list_all is_digit (take 4 s) \<and> list_all is_digit (take 2 (drop 5 s))
         \<and> list_all is_digit (take 2 (drop 8 s)) \<and> list_all is_digit (take 2 (drop 11 s))
         \<and> list_all is_digit (take 2 (drop 14 s)) \<and> list_all is_digit (take 2 (drop 17 s))
         \<and> list_all is_digit (take 3 (drop 20 s))
      then
        (let y = int (nat_of_digits (take 4 s));
             m = int (nat_of_digits (take 2 (drop 5 s)));
             d = int (nat_of_digits (take 2 (drop 8 s)));
             h = int (nat_of_digits (take 2 (drop 11 s)));
             mi = int (nat_of_digits (take 2 (drop 14 s)));
             sec = int (nat_of_digits (take 2 (drop 17 s)));
             ms = int (nat_of_digits (take 3 (drop 20 s)))
         in if 1 \<le> m \<and> m \<le> 12 \<and> 1 \<le> d \<and> d \<le> days_in_month y m \<and> mi \<le> 59 \<and> sec \<le> 59
               \<and> (h \<le> 23 \<or> (h = 24 \<and> mi = 0 \<and> sec = 0 \<and> ms = 0))
            then Some (days_from_civil y m d * 86400000 + h * 3600000 + mi * 60000 + sec * 1000 + ms)
            else None)
      else None)"

text \<open>\<open>key.replace(/\+/g, ' ')\<close>\<close>

definition replace_plus :: "string \<Rightarrow> string" where
  "replace_plus s = map (\<lambda>c. if c = CHR ''+'' then CHR '' '' else c) s"

text \<open>
  \<open>decodeURIComponent\<close>: every \<open>%XX\<close> becomes the octet \<open>XX\<close>, and the octets of a
  run must be well-formed UTF-8; anything else is a URIError (\<open>None\<close>). The decoded
  string is kept in UTF-8.
\<close>

definition hex_digit :: "char \<Rightarrow> nat option" where
  "hex_digit c =
     (let n = (of_char c :: nat)
      in if 48 \<le> n \<and> n \<le> 57 then Some (n - 48)
         else if 65 \<le> n \<and> n \<le> 70 then Some (n - 55)
         else if 97 \<le> n \<and> n \<le> 102 then Some (n - 87)
         else None)"

datatype uri_unit = Lit char | Octet nat

fun unescape :: "string \<Rightarrow> uri_unit list option" where
  "unescape [] = Some []"
| "unescape (c # cs) =
     (if c = CHR ''%'' then
        (case cs of
           h1 # h2 # rest \<Rightarrow>
             (case (hex_digit h1, hex_digit h2) of
                (Some a, Some b) \<Rightarrow> map_option (Cons (Octet (16 * a + b))) (unescape rest)
              | _ \<Rightarrow> None)
         | _ \<Rightarrow> None)
      else map_option (Cons (Lit c)) (unescape cs))"

text \<open>\<open>utf8 k lo hi us\<close>: \<open>k\<close> continuation octets are still due, the next of them
  within \<open>lo..hi\<close>.\<close>

fun utf8 :: "nat \<Rightarrow> nat \<Rightarrow> nat \<Rightarrow> uri_unit list \<Rightarrow> string option" where
  "utf8 k lo hi [] = (if k = 0 then Some [] else None)"
| "utf8 k lo hi (Lit c # us) = (if k = 0 then map_option (Cons c) (utf8 0 0 0 us) else None)"
| "utf8 k lo hi (Octet b # us) =
     (if k = 0 then
        (if b < 128 then map_option (Cons (char_of b)) (utf8 0 0 0 us)
         else if 194 \<le> b \<and> b \<le> 223 then map_option (Cons (char_of b)) (utf8 1 128 191 us)
         else if b = 224 then map_option (Cons (char_of b)) (utf8 2 160 191 us)
         else if b = 237 then map_option (Cons (char_of b)) (utf8 2 128 159 us)
         else if 225 \<le> b \<and> b \<le> 239 then map_option (Cons (char_of b)) (utf8 2 128 191 us)
         else if b = 240 then map_option (Cons (char_of b)) (utf8 3 144 191 us)
         else if 241 \<le> b \<and> b \<le> 243 then map_option (Cons (char_of b)) (utf8 3 128 191 us)
         else if b = 244 then map_option (Cons (char_of b)) (utf8 3 128 143 us)
         else None)
      else if lo \<le> b \<and> b \<le> hi then map_option (Cons (char_of b)) (utf8 (k - 1) 128 191 us)
      else None)"

definition decodeURIComponent :: "string \<Rightarrow> string option" where
  "decodeURIComponent s = (case unescape s of None \<Rightarrow> None | Some us \<Rightarrow> utf8 0 0 0 us)"

text \<open>\<open>toLowerCase\<close> on the ASCII letters (no other letter lower-cases to one of
  \<open>.pdf\<close>), \<open>endsWith\<close>, and \<open>split('/')\<close> with \<open>pop()\<close>.\<close>

definition lower_char :: "char \<Rightarrow> char" where
  "lower_char c =
     (if 65 \<le> (of_char c :: nat) \<and> (of_char c :: nat) \<le> 90 then char_of ((of_char c :: nat) + 32) else c)"

definition toLowerCase :: "string \<Rightarrow> string" where
  "toLowerCase s = map lower_char s"

definition endsWith :: "string \<Rightarrow> string \<Rightarrow> bool" where
  "endsWith s suf = (length suf \<le> length s \<and> drop (length s - length suf) s = suf)"

fun split_on :: "char \<Rightarrow> string \<Rightarrow> string list" where
  "split_on d [] = [[]]"
| "split_on d (c # cs) =
     (if c = d then [] # split_on d cs
      else (case split_on d cs of [] \<Rightarrow> [[c]] | p # ps \<Rightarrow> (c # p) # ps))"

definition nomeArquivo :: "string \<Rightarrow> string" where
  "nomeArquivo k = last (split_on CHR ''/'' k)"

section \<open>lambda-confirmacao\<close>

record s3_record =
  bucket_name :: string
  object_key :: string

definition send_Head :: "string \<Rightarrow> string \<Rightarrow> world \<Rightarrow> (js_error + s3object) \<times> world" where
  "send_Head b k w =
     (case map_of (objects w) (b, k) of
        None \<Rightarrow> (Inl NotFound, sent (HeadObjectCommand b k) w)
      | Some ob \<Rightarrow> (Inr ob, sent (HeadObjectCommand b k) w))"

text \<open>\<open>headResponse.Metadata?.idpedido || headResponse.Metadata?.idPedido\<close>: the first
  of the two that is a non-empty string, else the second as it is.\<close>

definition metadata_idPedido :: "(string \<times> string) list \<Rightarrow> string option" where
  "metadata_idPedido md =
     (case map_of md ''idpedido'' of
        None \<Rightarrow> map_of md ''idPedido''
      | Some v \<Rightarrow> (if v \<noteq> [] then Some v else map_of md ''idPedido''))"

text \<open>The object store measures the user metadata of an object by the bytes of its
  names and values, and keeps at most 2 KB of it.\<close>

definition user_metadata_size :: "(string \<times> string) list \<Rightarrow> nat" where
  "user_metadata_size md = sum_list (map (\<lambda>(n, v). length n + length v) md)"

text \<open>Lines 52 to 67: the update that marks the order shipped. \<open>now\<close> is the clock
  reading of \<open>new Date()\<close>.\<close>

definition updateCommand :: "string \<Rightarrow> string \<Rightarrow> int \<Rightarrow> world \<Rightarrow> (js_error + item) \<times> world" where
  "updateCommand idPedido nome now w =
     send_Update (JStr idPedido)
       [(''status'', JStr ''ENVIADO''),
        (''dataEnvio'', JStr (toISOString now)),
        (''referenciaNota'', JStr nome)] w"

text \<open>The body of the loop for one record: \<open>Inr ()\<close> when the loop goes on to the next
  record (after a \<open>continue\<close> or at the end of the body), \<open>Inl e\<close> when it throws.\<close>

definition confirmacao_record :: "int \<Rightarrow> s3_record \<Rightarrow> world \<Rightarrow> (js_error + unit) \<times> world" where
  "confirmacao_record now r w =
     (case decodeURIComponent (replace_plus (object_key r)) of
        None \<Rightarrow> (Inl URIError, w)
      | Some k \<Rightarrow>
          if \<not> endsWith (toLowerCase k) ''.pdf'' then (Inr (), w)
          else
            (case send_Head (bucket_name r) k w of
               (Inl e, w1) \<Rightarrow> (Inl e, w1)
             | (Inr headResponse, w1) \<Rightarrow>
                 (case metadata_idPedido (metadata headResponse) of
                    None \<Rightarrow> (Inr (), w1)
                  | Some idPedido \<Rightarrow>
                      if idPedido = [] then (Inr (), w1)
                      else
                        (case updateCommand idPedido (nomeArquivo k) now w1 of
                           (Inl e, w2) \<Rightarrow> (Inl e, w2)
                         | (Inr attrs, w2) \<Rightarrow> (Inr (), w2)))))"

text \<open>The loop over \<open>event.Records\<close>; \<open>clock i\<close> is what the clock shows while the
  \<open>i\<close>-th record is processed. An exception leaves the loop: the handler logs it
  and throws it again.\<close>

fun confirmacao_loop ::
  "(nat \<Rightarrow> int) \<Rightarrow> nat \<Rightarrow> s3_record list \<Rightarrow> world \<Rightarrow> (js_error + unit) \<times> world" where
  "confirmacao_loop clock i [] w = (Inr (), w)"
| "confirmacao_loop clock i (r # rs) w =
     (case confirmacao_record (clock i) r w of
        (Inl e, w1) \<Rightarrow> (Inl e, w1)
      | (Inr u, w1) \<Rightarrow> confirmacao_loop clock (Suc i) rs w1)"

definition confirmacao_handler ::
  "(nat \<Rightarrow> int) \<Rightarrow> s3_record list \<Rightarrow> world \<Rightarrow> (js_error + response) \<times> world" where
  "confirmacao_handler clock Records w =
     (case confirmacao_loop clock 0 Records w of
        (Inl e, w1) \<Rightarrow> (Inl e, w1)
      | (Inr u, w1) \<Rightarrow> (Inr (reply 200 JNull), w1))"


text \<open>A clock that shows the same instant at every reading.\<close>

definition fixed_clock :: "int \<Rightarrow> nat \<Rightarrow> int" where
  "fixed_clock t i = t"

section \<open>The orders API\<close>

text \<open>\<open>a || b\<close>\<close>

definition js_or :: "jsval \<Rightarrow> jsval \<Rightarrow> jsval" where
  "js_or a b = (if truthy a then a else b)"

text \<open>
  \<open>parseFloat\<close> of a string: leading white space, an optional sign, then
  \<open>Infinity\<close> or the longest decimal literal (digits, a fraction, an exponent);
  NaN when there is none. The value is exact (no rounding to a double).
\<close>

definition is_space :: "char \<Rightarrow> bool" where
  "is_space c = ((of_char c :: nat) \<in> {9, 10, 11, 12, 13, 32})"

text \<open>The white space and line terminators beyond ASCII, by their UTF-8 octets:
  U+00A0; U+1680, U+2000 to U+200A, U+2028, U+2029, U+202F, U+205F, U+3000, U+FEFF.\<close>

definition wide_space :: "nat \<Rightarrow> nat \<Rightarrow> nat \<Rightarrow> bool" where
  "wide_space a b c =
     ((a = 225 \<and> b = 154 \<and> c = 128)
      \<or> (a = 226 \<and> b = 128 \<and> ((128 \<le> c \<and> c \<le> 138) \<or> c = 168 \<or> c = 169 \<or> c = 175))
      \<or> (a = 226 \<and> b = 129 \<and> c = 159)
      \<or> (a = 227 \<and> b = 128 \<and> c = 128)
      \<or> (a = 239 \<and> b = 187 \<and> c = 191))"

fun trim_start :: "string \<Rightarrow> string" where
  "trim_start [] = []"
| "trim_start (c # t) =
     (if is_space c then trim_start t
      else if (of_char c :: nat) = 194 then
        (case t of
           d # t' \<Rightarrow> (if (of_char d :: nat) = 160 then trim_start t' else c # t)
         | [] \<Rightarrow> c # t)
      else
        (case t of
           d # e # t' \<Rightarrow>
             (if wide_space (of_char c) (of_char d) (of_char e) then trim_start t' else c # t)
         | _ \<Rightarrow> c # t))"

definition exponent_of :: "string \<Rightarrow> int" where
  "exponent_of s =
     (case s of
        [] \<Rightarrow> 0
      | c # t \<Rightarrow>
          if c = CHR ''e'' \<or> c = CHR ''E'' then
            (let neg = (t \<noteq> [] \<and> hd t = CHR ''-'');
                 ds = takeWhile is_digit
                        (if t \<noteq> [] \<and> (hd t = CHR ''-'' \<or> hd t = CHR ''+'') then tl t else t)
             in if ds = [] then 0
                else if neg then - int (nat_of_digits ds) else int (nat_of_digits ds))
          else 0)"

definition scale10 :: "real \<Rightarrow> int \<Rightarrow> real" where
  "scale10 x e = (if 0 \<le> e then x * 10 ^ nat e else x / 10 ^ nat (- e))"

definition parseFloat_str :: "string \<Rightarrow> jsnum" where
  "parseFloat_str s =
     (let s1 = trim_start s;
          neg = (s1 \<noteq> [] \<and> hd s1 = CHR ''-'');
          s2 = (if s1 \<noteq> [] \<and> (hd s1 = CHR ''-'' \<or> hd s1 = CHR ''+'') then tl s1 else s1)
      in if take 8 s2 = ''Infinity'' then (if neg then NegInf else PosInf)
         else
           (let ip = takeWhile is_digit s2;
                s3 = dropWhile is_digit s2;
                dot = (s3 \<noteq> [] \<and> hd s3 = CHR ''.'');
                fp = (if dot then takeWhile is_digit (tl s3) else []);
                s4 = (if dot then dropWhile is_digit (tl s3) else s3);
                m = real (nat_of_digits ip) + real (nat_of_digits fp) / 10 ^ length fp
            in if ip = [] \<and> fp = [] then NaN
               else Fin (scale10 (if neg then - m else m) (exponent_of s4))))"

text \<open>
  \<open>parseFloat\<close> of any value parses its string form. A number's string form reads
  back as the number; \<open>true\<close>, \<open>null\<close>, \<open>undefined\<close> and \<open>[object Object]\<close> hold no
  number; an array's string form starts with that of its first element (empty for
  \<open>null\<close> and \<open>undefined\<close>), and the comma after it ends any literal.
\<close>

fun parseFloat :: "jsval \<Rightarrow> jsnum" where
  "parseFloat (JNum n) = n"
| "parseFloat (JStr s) = parseFloat_str s"
| "parseFloat (JArr (x # xs)) = parseFloat x"
| "parseFloat v = NaN"

definition is_finite :: "jsnum \<Rightarrow> bool" where
  "is_finite n = (case n of Fin x \<Rightarrow> True | _ \<Rightarrow> False)"

text \<open>
  What the document client can marshall: it refuses \<open>undefined\<close>, the numbers NaN
  and infinity, and a number beyond the safe integers (2^53 - 1), at any depth.
\<close>

fun marshallable :: "jsval \<Rightarrow> bool" where
  "marshallable JUndefined = False"
| "marshallable (JNum n) = (case n of Fin x \<Rightarrow> \<bar>x\<bar> \<le> 9007199254740991 | _ \<Rightarrow> False)"
| "marshallable (JArr xs) = list_all marshallable xs"
| "marshallable (JObj fs) = list_all marshallable (map snd fs)"
| "marshallable v = True"

text \<open>\<open>PutCommand\<close>: the item replaces whatever the table has under its key.\<close>

definition send_Put :: "item \<Rightarrow> world \<Rightarrow> (js_error + unit) \<times> world" where
  "send_Put it w =
     (if \<not> list_all marshallable (map snd it) then (Inl MarshallError, sent (PutCommand it) w)
      else
        (case valid_key (case map_of it ''idPedido'' of None \<Rightarrow> JUndefined | Some k \<Rightarrow> k) of
           None \<Rightarrow> (Inl ValidationException, sent (PutCommand it) w)
         | Some s \<Rightarrow> (Inr (), sent (PutCommand it) (w\<lparr>pedidos := AList.update s it (pedidos w)\<rparr>))))"

text \<open>
  \<open>POST /pedidos\<close>. \<open>uuid\<close> is what \<open>randomUUID()\<close> returns and \<open>now\<close> the clock
  reading; \<open>body\<close> is \<open>req.body\<close>. Destructuring \<open>undefined\<close> or \<open>null\<close> throws, and
  the handler answers every exception with 500. \<open>field\<close> reads a property of a
  value that is known to be neither.
\<close>

definition field :: "jsval \<Rightarrow> string \<Rightarrow> jsval" where
  "field v k = (case get_prop v k of Inl e \<Rightarrow> JUndefined | Inr x \<Rightarrow> x)"

definition post_pedidos :: "string \<Rightarrow> int \<Rightarrow> jsval \<Rightarrow> world \<Rightarrow> response \<times> world" where
  "post_pedidos uuid now body w =
     (case get_prop body ''emailCliente'' of
        Inl e \<Rightarrow> (reply 500 JNull, w)
      | Inr emailCliente \<Rightarrow>
          (let nomeCliente = field body ''nomeCliente'';
               valor = field body ''valor'';
               status = (if field body ''status'' = JUndefined then JStr ''RECEBIDO''
                         else field body ''status'');
               referenciaNota = field body ''referenciaNota'';
               dataEnvio = field body ''dataEnvio''
           in if \<not> truthy emailCliente \<or> \<not> truthy nomeCliente \<or> \<not> truthy valor
              then (reply 400 JNull, w)
              else
                (let pedido = [(''idPedido'', JStr uuid),
                               (''emailCliente'', emailCliente),
                               (''nomeCliente'', nomeCliente),
                               (''valor'', JNum (parseFloat valor)),
                               (''data'', JStr (toISOString now)),
                               (''status'', status),
                               (''referenciaNota'', js_or referenciaNota JNull),
                               (''dataEnvio'', js_or dataEnvio JNull)]
                 in (case send_Put pedido w of
                       (Inl e, w1) \<Rightarrow> (reply 500 JNull, w1)
                     | (Inr u, w1) \<Rightarrow> (reply 201 (JObj [(''pedido'', JObj pedido)]), w1)))))"

text \<open>
  \<open>POST /pedidos/:idPedido/upload\<close>. \<open>req.file\<close> is the uploaded file or undefined;
  \<open>BUCKET_NAME\<close> comes from the environment; \<open>now\<close> is what \<open>Date.now()\<close> returns and
  \<open>now'\<close> what \<open>new Date()\<close> shows a moment later. The object store keeps the names
  of user metadata in lower case.
\<close>

record upload_file =
  originalname :: string
  buffer :: string
  mimetype :: string

definition send_PutObject :: "string \<Rightarrow> string \<Rightarrow> s3object \<Rightarrow> world \<Rightarrow> world" where
  "send_PutObject b k ob w =
     sent (PutObjectCommand b k)
       (w\<lparr>objects := AList.update (b, k)
             (ob\<lparr>metadata := map (\<lambda>(n, v). (toLowerCase n, v)) (metadata ob)\<rparr>) (objects w)\<rparr>)"

definition post_upload ::
  "string \<Rightarrow> int \<Rightarrow> int \<Rightarrow> string \<Rightarrow> upload_file option \<Rightarrow> world \<Rightarrow> response \<times> world" where
  "post_upload BUCKET_NAME now now' idPedido req_file w =
     (case req_file of
        None \<Rightarrow> (reply 400 JNull, w)
      | Some f \<Rightarrow>
          (case send_Get (JStr idPedido) w of
             (Inl e, w1) \<Rightarrow> (reply 500 JNull, w1)
           | (Inr None, w1) \<Rightarrow> (reply 404 JNull, w1)
           | (Inr (Some Item), w1) \<Rightarrow>
               (let fileKey = dec_of_int now @ ''-'' @ originalname f;
                    w2 = send_PutObject BUCKET_NAME fileKey
                           \<lparr>content = buffer f, contentType = mimetype f,
                            metadata = [(''idPedido'', idPedido),
                                        (''dataUpload'', toISOString now')]\<rparr> w1
                in (reply 200 (JObj [(''fileKey'', JStr fileKey), (''idPedido'', JStr idPedido),
                                     (''bucket'', JStr BUCKET_NAME)]), w2))))"

section \<open>lambda-envio: the scan and the filter\<close>

text \<open>The scan with \<open>#status = :status\<close>: the items whose \<open>status\<close> attribute is the
  string \<open>RECEBIMENTO\<close>, in the order the table yields them. The handler sends one
  \<open>ScanCommand\<close> and reads one page; the table is taken to fit in it.\<close>

definition send_Scan :: "world \<Rightarrow> item list \<times> world" where
  "send_Scan w =
     (filter (\<lambda>it. map_of it ''status'' = Some (JStr ''RECEBIMENTO'')) (map snd (pedidos w)),
      sent ScanCommand w)"

text \<open>
  \<open>new Date(v)\<close> as a time value, \<open>None\<close> for an invalid date. A string is read by
  \<open>parse_iso\<close>; a finite number within the range of time values is truncated to an
  integer; \<open>null\<close> and the booleans convert to 0 and 1. Arrays and objects, which are
  converted to strings first, are taken as invalid.
\<close>

definition new_Date :: "jsval \<Rightarrow> int option" where
  "new_Date v =
     (case v of
        JStr s \<Rightarrow> parse_iso s
      | JNum n \<Rightarrow>
          (case n of
             Fin x \<Rightarrow> (if \<bar>x\<bar> \<le> 8640000000000000
                        then Some (if 0 \<le> x then \<lfloor>x\<rfloor> else \<lceil>x\<rceil>) else None)
           | _ \<Rightarrow> None)
      | JNull \<Rightarrow> Some 0
      | JBool b \<Rightarrow> Some (if b then 1 else 0)
      | _ \<Rightarrow> None)"

definition item_prop :: "item \<Rightarrow> string \<Rightarrow> jsval" where
  "item_prop it k = (case map_of it k of None \<Rightarrow> JUndefined | Some v \<Rightarrow> v)"

text \<open>Lines 129 to 134: an order is pending when it is more than four minutes old; a
  comparison with NaN is false.\<close>

definition pendente :: "int \<Rightarrow> item \<Rightarrow> bool" where
  "pendente agora pedido =
     (case new_Date (item_prop pedido ''data'') of
        None \<Rightarrow> False
      | Some dataPedido \<Rightarrow> real_of_int (agora - dataPedido) / (1000 * 60) > 4)"

definition pedidosPendentes :: "int \<Rightarrow> world \<Rightarrow> item list \<times> world" where
  "pedidosPendentes agora w =
     (case send_Scan w of (pedidos_found, w1) \<Rightarrow> (filter (pendente agora) pedidos_found, w1))"

section \<open>lambda-notificacao\<close>

text \<open>
  A stream record carries the event name and the two images; an image maps attribute
  names to typed attribute values, of which the handler reads the members \<open>S\<close> and
  \<open>N\<close>. An image that the stream does not carry is \<open>None\<close>.
\<close>

datatype attribute_value = AV_S string | AV_N string | AV_other

type_synonym image = "(string \<times> attribute_value) list"

record stream_record =
  eventName :: string
  NewImage :: "image option"
  OldImage :: "image option"

text \<open>\<open>image?.name?.S\<close> and \<open>image?.name?.N\<close>\<close>

definition opt_S :: "image option \<Rightarrow> string \<Rightarrow> jsval" where
  "opt_S img a =
     (case img of
        None \<Rightarrow> JUndefined
      | Some i \<Rightarrow> (case map_of i a of Some (AV_S s) \<Rightarrow> JStr s | _ \<Rightarrow> JUndefined))"

definition opt_N :: "image option \<Rightarrow> string \<Rightarrow> jsval" where
  "opt_N img a =
     (case img of
        None \<Rightarrow> JUndefined
      | Some i \<Rightarrow> (case map_of i a of Some (AV_N s) \<Rightarrow> JStr s | _ \<Rightarrow> JUndefined))"

text \<open>
  \<open>emailTemplates[key]\<close>: the object has three properties of its own, and, being a
  plain object, it inherits those of \<open>Object.prototype\<close>, all of them truthy and none
  with a \<open>body\<close> function. The key \<open>undefined\<close> is looked up as the string
  \<open>undefined\<close> and finds nothing.
\<close>

datatype template = RECEBIMENTO | PREPARACAO | ENVIADO

datatype template_lookup = Own template | Inherited | Absent

definition object_prototype_names :: "string list" where
  "object_prototype_names =
     [''constructor'', ''__defineGetter__'', ''__defineSetter__'', ''hasOwnProperty'',
      ''__lookupGetter__'', ''__lookupSetter__'', ''isPrototypeOf'', ''propertyIsEnumerable'',
      ''toString'', ''valueOf'', ''__proto__'', ''toLocaleString'']"

definition emailTemplates :: "jsval \<Rightarrow> template_lookup" where
  "emailTemplates key =
     (case key of
        JStr s \<Rightarrow>
          (if s = ''RECEBIMENTO'' then Own RECEBIMENTO
           else if s = ''PREPARACAO'' then Own PREPARACAO
           else if s = ''ENVIADO'' then Own ENVIADO
           else if s \<in> set object_prototype_names then Inherited
           else Absent)
      | _ \<Rightarrow> Absent)"

text \<open>The message handed to the transport: the recipient, and the template with the
  order it is rendered for (they fix the subject and the body).\<close>

record email =
  ToAddresses :: "jsval list"
  template_of :: template
  pedido_of :: item

text \<open>Lines 304 to 313: the order as a JavaScript object, read from the new image.\<close>

definition pedido_from_image :: "jsval \<Rightarrow> image \<Rightarrow> item" where
  "pedido_from_image newStatus newImage =
     [(''idPedido'', opt_S (Some newImage) ''idPedido''),
      (''emailCliente'', opt_S (Some newImage) ''emailCliente''),
      (''nomeCliente'', opt_S (Some newImage) ''nomeCliente''),
      (''valor'', JNum (parseFloat (js_or (opt_N (Some newImage) ''valor'') (JNum (Fin 0))))),
      (''data'', opt_S (Some newImage) ''data''),
      (''status'', newStatus),
      (''referenciaNota'', js_or (opt_S (Some newImage) ''referenciaNota'') JNull),
      (''dataEnvio'', js_or (opt_S (Some newImage) ''dataEnvio'') JNull)]"

text \<open>
  The body of the loop for one record. \<open>ses\<close> is the transport: it accepts the message
  and returns its id, or throws. \<open>sentbox\<close> lists the messages it has accepted.
  Reading \<open>newImage.idPedido\<close> throws when the record has no new image; building the
  message throws when the template found is an inherited property, which has no
  \<open>body\<close> to call.
\<close>

definition notificacao_record ::
  "(email \<Rightarrow> js_error + string) \<Rightarrow> stream_record \<Rightarrow> email list \<Rightarrow> (js_error + unit) \<times> email list" where
  "notificacao_record ses r sentbox =
     (if eventName r \<noteq> ''MODIFY'' then (Inr (), sentbox)
      else
        (let oldStatus = opt_S (OldImage r) ''status'';
             newStatus = opt_S (NewImage r) ''status''
         in if oldStatus = newStatus then (Inr (), sentbox)
            else
              (case NewImage r of
                 None \<Rightarrow> (Inl TypeError, sentbox)
               | Some newImage \<Rightarrow>
                   (let pedido = pedido_from_image newStatus newImage
                    in (case emailTemplates (item_prop pedido ''status'') of
                          Absent \<Rightarrow> (Inr (), sentbox)
                        | Inherited \<Rightarrow>
                            if \<not> truthy (item_prop pedido ''emailCliente'') then (Inr (), sentbox)
                            else (Inl TypeError, sentbox)
                        | Own t \<Rightarrow>
                            if \<not> truthy (item_prop pedido ''emailCliente'') then (Inr (), sentbox)
                            else
                              (let m = \<lparr>ToAddresses = [item_prop pedido ''emailCliente''],
                                        template_of = t, pedido_of = pedido\<rparr>
                               in (case ses m of
                                     Inl e \<Rightarrow> (Inl e, sentbox)
                                   | Inr messageId \<Rightarrow> (Inr (), sentbox @ [m]))))))))"

fun notificacao_loop ::
  "(email \<Rightarrow> js_error + string) \<Rightarrow> stream_record list \<Rightarrow> email list \<Rightarrow> (js_error + unit) \<times> email list" where
  "notificacao_loop ses [] sentbox = (Inr (), sentbox)"
| "notificacao_loop ses (r # rs) sentbox =
     (case notificacao_record ses r sentbox of
        (Inl e, sentbox1) \<Rightarrow> (Inl e, sentbox1)
      | (Inr u, sentbox1) \<Rightarrow> notificacao_loop ses rs sentbox1)"

definition notificacao_handler ::
  "(email \<Rightarrow> js_error + string) \<Rightarrow> stream_record list \<Rightarrow> email list \<Rightarrow> (js_error + response) \<times> email list" where
  "notificacao_handler ses Records sentbox =
     (case notificacao_loop ses Records sentbox of
        (Inl e, sentbox1) \<Rightarrow> (Inl e, sentbox1)
      | (Inr u, sentbox1) \<Rightarrow> (Inr (reply 200 JNull), sentbox1))"

text \<open>A transport that refuses one recipient and accepts every other message.\<close>

definition ses_refusing :: "string \<Rightarrow> email \<Rightarrow> js_error + string" where
  "ses_refusing bad m =
     (if ToAddresses m = [JStr bad] then Inl (TransportError ''MessageRejected'') else Inr ''message-id'')"

text \<open>A \<open>MODIFY\<close> record for the order \<open>oid\<close> of the customer \<open>mail\<close>, whose status
  went from \<open>old\<close> to \<open>new\<close>.\<close>

definition modify_record :: "string \<Rightarrow> string \<Rightarrow> string \<Rightarrow> string \<Rightarrow> stream_record" where
  "modify_record oid mail old new =
     \<lparr>eventName = ''MODIFY'',
      NewImage = Some [(''idPedido'', AV_S oid), (''emailCliente'', AV_S mail),
                       (''nomeCliente'', AV_S ''Ana''), (''valor'', AV_N ''10.5''),
                       (''status'', AV_S new)],
      OldImage = Some [(''idPedido'', AV_S oid), (''emailCliente'', AV_S mail),
                       (''nomeCliente'', AV_S ''Ana''), (''valor'', AV_N ''10.5''),
                       (''status'', AV_S old)]\<rparr>"

definition is_put_object :: "command \<Rightarrow> bool" where
  "is_put_object c = (case c of PutObjectCommand b k \<Rightarrow> True | _ \<Rightarrow> False)"

text \<open>The body of a request that creates an order, without a status and with one.\<close>

definition order_body :: jsval where
  "order_body = JObj [(''emailCliente'', JStr ''ana@loja.example''),
                      (''nomeCliente'', JStr ''Ana''), (''valor'', JNum (Fin 10))]"

definition order_body_with :: "string \<Rightarrow> jsval" where
  "order_body_with st = JObj [(''emailCliente'', JStr ''ana@loja.example''),
                      (''nomeCliente'', JStr ''Ana''), (''valor'', JNum (Fin 10)),
                      (''status'', JStr st)]"

section \<open>Facts about the store\<close>

lemma sent_pedidos: "pedidos (sent c w) = pedidos w"
  by (simp add: sent_def)

lemma sent_objects: "objects (sent c w) = objects w"
  by (simp add: sent_def)



section \<open>Advancing an order to preparation\<close>

lemma valid_key_Some:
  "valid_key k = Some s \<longleftrightarrow> k = JStr s \<and> s \<noteq> [] \<and> length s \<le> 2048"
  by (cases k) (auto simp add: valid_key_def)

lemma long_key_refused: "valid_key (JStr (replicate 2049 CHR ''x'')) = None"
  by (simp add: valid_key_def)

text \<open>
  C10, as stated, fails. An invocation without a body has a payload whose \<open>idPedido\<close>
  is absent, yet the answer is 500, not 400: reading the field of \<open>null\<close> throws, and
  the handler answers every exception with 500.
\<close>

theorem preparacao_absent_payload_is_500:
  "preparacao_handler JNull
     \<lparr>pedidos = [(''p1'', [(''idPedido'', JStr ''p1''), (''status'', JStr ''RECEBIDO'')])],
      objects = [], calls = []\<rparr>
   = (reply 500 JNull,
      \<lparr>pedidos = [(''p1'', [(''idPedido'', JStr ''p1''), (''status'', JStr ''RECEBIDO'')])],
       objects = [], calls = []\<rparr>)"
  by (simp add: preparacao_handler_def)

text \<open>
  C10, amended. A payload whose \<open>idPedido\<close> is absent or falsy is refused before
  anything is sent to the table, so the world is the one the handler started in: the
  answer is 400 when the payload is there (neither \<open>null\<close> nor \<open>undefined\<close>), and 500
  when the payload itself is missing.
\<close>

theorem preparacao_rejects_missing_id:
  assumes "\<not> truthy (field body ''idPedido'')"
  shows "preparacao_handler body w =
           (reply (if body = JUndefined \<or> body = JNull then 500 else 400) JNull, w)"
proof (cases "body = JUndefined \<or> body = JNull")
  case True
  then show ?thesis by (auto simp add: preparacao_handler_def)
next
  case False
  then have "get_prop body ''idPedido'' = Inr (field body ''idPedido'')"
    by (cases body) (simp_all add: field_def)
  with assms False show ?thesis by (simp add: preparacao_handler_def)
qed

theorem preparacao_rejects_missing_id_witness:
  "preparacao_handler (JObj [(''pedido'', JStr ''abc'')])
        \<lparr>pedidos = [(''p1'', [(''idPedido'', JStr ''p1''), (''status'', JStr ''RECEBIDO'')])],
         objects = [], calls = []\<rparr>
      = (reply 400 JNull,
         \<lparr>pedidos = [(''p1'', [(''idPedido'', JStr ''p1''), (''status'', JStr ''RECEBIDO'')])],
          objects = [], calls = []\<rparr>)
   \<and> preparacao_handler (JObj [(''idPedido'', JNum (Fin 0))])
        \<lparr>pedidos = [(''p1'', [(''idPedido'', JStr ''p1''), (''status'', JStr ''RECEBIDO'')])],
         objects = [], calls = []\<rparr>
      = (reply 400 JNull,
         \<lparr>pedidos = [(''p1'', [(''idPedido'', JStr ''p1''), (''status'', JStr ''RECEBIDO'')])],
          objects = [], calls = []\<rparr>)
   \<and> preparacao_handler JUndefined
        \<lparr>pedidos = [(''p1'', [(''idPedido'', JStr ''p1''), (''status'', JStr ''RECEBIDO'')])],
         objects = [], calls = []\<rparr>
      = (reply 500 JNull,
         \<lparr>pedidos = [(''p1'', [(''idPedido'', JStr ''p1''), (''status'', JStr ''RECEBIDO'')])],
          objects = [], calls = []\<rparr>)"
proof -
  let ?w = "\<lparr>pedidos = [(''p1'', [(''idPedido'', JStr ''p1''), (''status'', JStr ''RECEBIDO'')])],
             objects = [], calls = []\<rparr>"
  have a: "preparacao_handler (JObj [(''pedido'', JStr ''abc'')]) ?w = (reply 400 JNull, ?w)"
    using preparacao_rejects_missing_id [of "JObj [(''pedido'', JStr ''abc'')]" ?w]
    by (simp add: field_def)
  have b: "preparacao_handler (JObj [(''idPedido'', JNum (Fin 0))]) ?w = (reply 400 JNull, ?w)"
    using preparacao_rejects_missing_id [of "JObj [(''idPedido'', JNum (Fin 0))]" ?w]
    by (simp add: field_def)
  have c: "preparacao_handler JUndefined ?w = (reply 500 JNull, ?w)"
    using preparacao_rejects_missing_id [of JUndefined ?w] by (simp add: field_def)
  from a b c show ?thesis by blast
qed




section \<open>The document intake router\<close>






lemma map_of_set_attrs_three:
  "map_of (set_attrs [(a, u), (b, v), (c, x)] it) = (map_of it)(a \<mapsto> u, b \<mapsto> v, c \<mapsto> x)"
  by (simp add: set_attrs_def update_conv')

text \<open>The update of lines 52 to 67 never fails for an id that is a key of the table:
  it writes the three attributes into the order's item, or into a new item when the
  table has none.\<close>

lemma updateCommand_result:
  assumes "oid \<noteq> []" and "length oid \<le> 2048"
  shows "updateCommand oid f now w =
     (Inr (set_attrs [(''status'', JStr ''ENVIADO''), (''dataEnvio'', JStr (toISOString now)),
                      (''referenciaNota'', JStr f)]
            (case map_of (pedidos w) oid of None \<Rightarrow> [(''idPedido'', JStr oid)] | Some it \<Rightarrow> it)),
      sent (UpdateCommand (JStr oid) [(''status'', JStr ''ENVIADO''),
              (''dataEnvio'', JStr (toISOString now)), (''referenciaNota'', JStr f)])
        (w\<lparr>pedidos := AList.update oid
             (set_attrs [(''status'', JStr ''ENVIADO''), (''dataEnvio'', JStr (toISOString now)),
                      (''referenciaNota'', JStr f)]
               (case map_of (pedidos w) oid of None \<Rightarrow> [(''idPedido'', JStr oid)] | Some it \<Rightarrow> it))
             (pedidos w)\<rparr>))"
  using assms by (simp add: updateCommand_def send_Update_def valid_key_def Let_def)


lemma updateCommand_known:
  assumes "oid \<noteq> []" and "length oid \<le> 2048" and "map_of (pedidos w) oid = Some it"
  shows "\<exists>it'. fst (updateCommand oid f now w) = Inr it'
           \<and> map_of it' = (map_of it)(''status'' \<mapsto> JStr ''ENVIADO'',
                 ''dataEnvio'' \<mapsto> JStr (toISOString now), ''referenciaNota'' \<mapsto> JStr f)
           \<and> map_of (pedidos (snd (updateCommand oid f now w))) = (map_of (pedidos w))(oid \<mapsto> it')"
  using assms
  by (simp add: updateCommand_result map_of_set_attrs_three sent_pedidos update_conv')

lemma iso_example: "toISOString 1700000000123 = ''2023-11-14T22:13:20.123Z''"
  by code_simp

lemma decode_nota: "decodeURIComponent (replace_plus ''1700000000000-nota.pdf'') = Some ''1700000000000-nota.pdf''"
  by code_simp

lemma pdf_nota: "endsWith (toLowerCase ''1700000000000-nota.pdf'') ''.pdf''"
  by code_simp

lemma nomeArquivo_nota: "nomeArquivo ''1700000000000-nota.pdf'' = ''1700000000000-nota.pdf''"
  by code_simp

lemma decode_txt: "decodeURIComponent (replace_plus ''notas/leia+me.txt'') = Some ''notas/leia me.txt''"
  by code_simp

lemma not_pdf_txt: "\<not> endsWith (toLowerCase ''notas/leia me.txt'') ''.pdf''"
  by code_simp

lemma metadata_value_bounded:
  "map_of md n = Some v \<Longrightarrow> length v \<le> user_metadata_size md"
  by (induction md) (auto simp add: user_metadata_size_def split: if_splits)

lemma metadata_idPedido_bounded:
  "metadata_idPedido md = Some X \<Longrightarrow> length X \<le> user_metadata_size md"
  by (auto simp add: metadata_idPedido_def metadata_value_bounded
        split: option.splits if_splits)

text \<open>Within the object store's limit on user metadata, processing an event whose
  object is in the bucket raises no error.\<close>

lemma intake_no_error_within_metadata_limit:
  assumes "decodeURIComponent (replace_plus (object_key r)) = Some k"
    and "map_of (objects w) (bucket_name r, k) = Some ob"
    and "user_metadata_size (metadata ob) \<le> 2048"
  shows "fst (confirmacao_record now r w) = Inr ()"
proof (cases "metadata_idPedido (metadata ob)")
  case None
  with assms show ?thesis by (simp add: confirmacao_record_def send_Head_def)
next
  case (Some X)
  then have "length X \<le> 2048"
    using metadata_idPedido_bounded [of "metadata ob" X] assms(3) by simp
  with Some assms show ?thesis
    by (simp add: confirmacao_record_def send_Head_def updateCommand_result)
qed



text \<open>
  C1. The update that confirms the document does not check that the order exists.
  Here the table is empty and a PDF tagged with the order id \<open>X\<close> arrives: the handler
  answers 200, no NotFoundError, and the table now holds a record for \<open>X\<close>, made of
  the key and the three attributes of the update.
\<close>

theorem mark_shipped_creates_unknown_order:
  "confirmacao_handler (fixed_clock 1700000000123)
     [\<lparr>bucket_name = ''notas'', object_key = ''1700000000000-nota.pdf''\<rparr>]
     \<lparr>pedidos = [],
      objects = [((''notas'', ''1700000000000-nota.pdf''),
                  \<lparr>content = ''%PDF'', contentType = ''application/pdf'',
                   metadata = [(''idpedido'', ''X'')]\<rparr>)],
      calls = []\<rparr>
   = (Inr (reply 200 JNull),
      \<lparr>pedidos = [(''X'', [(''idPedido'', JStr ''X''), (''status'', JStr ''ENVIADO''),
                          (''dataEnvio'', JStr ''2023-11-14T22:13:20.123Z''),
                          (''referenciaNota'', JStr ''1700000000000-nota.pdf'')])],
       objects = [((''notas'', ''1700000000000-nota.pdf''),
                  \<lparr>content = ''%PDF'', contentType = ''application/pdf'',
                   metadata = [(''idpedido'', ''X'')]\<rparr>)],
       calls = [HeadObjectCommand ''notas'' ''1700000000000-nota.pdf'',
                UpdateCommand (JStr ''X'')
                  [(''status'', JStr ''ENVIADO''),
                   (''dataEnvio'', JStr ''2023-11-14T22:13:20.123Z''),
                   (''referenciaNota'', JStr ''1700000000000-nota.pdf'')]]\<rparr>)"
  by (simp add: confirmacao_handler_def confirmacao_record_def decode_nota pdf_nota
        nomeArquivo_nota send_Head_def metadata_idPedido_def updateCommand_result sent_def
        fixed_clock_def iso_example set_attrs_def)

text \<open>The same for every order id the table does not know: the update succeeds and
  the table has a record for it afterwards.\<close>

lemma updateCommand_unknown_creates:
  assumes "oid \<noteq> []" and "length oid \<le> 2048" and "map_of (pedidos w) oid = None"
  shows "fst (updateCommand oid f now w) =
           Inr [(''idPedido'', JStr oid), (''status'', JStr ''ENVIADO''),
                (''dataEnvio'', JStr (toISOString now)), (''referenciaNota'', JStr f)]"
    and "map_of (pedidos (snd (updateCommand oid f now w))) oid =
           Some [(''idPedido'', JStr oid), (''status'', JStr ''ENVIADO''),
                 (''dataEnvio'', JStr (toISOString now)), (''referenciaNota'', JStr f)]"
  using assms
  by (simp_all add: updateCommand_result sent_pedidos update_conv' set_attrs_def)

lemma confirmacao_loop_abort:
  assumes "confirmacao_loop clock i pre w = (Inr (), w1)"
    and "confirmacao_record (clock (i + length pre)) r w1 = (Inl e, w2)"
  shows "confirmacao_loop clock i (pre @ r # post) w = (Inl e, w2)"
  using assms
proof (induction pre arbitrary: i w)
  case Nil
  then show ?case by simp
next
  case (Cons a pre)
  then show ?case by (auto split: prod.splits sum.splits)
qed

lemma decode_falta: "decodeURIComponent (replace_plus ''falta.pdf'') = Some ''falta.pdf''"
  by code_simp

lemma pdf_falta: "endsWith (toLowerCase ''falta.pdf'') ''.pdf''"
  by code_simp

lemma confirmacao_record_falta:
  "confirmacao_record t \<lparr>bucket_name = ''notas'', object_key = ''falta.pdf''\<rparr>
     \<lparr>pedidos = [(''X'', [(''idPedido'', JStr ''X''), (''status'', JStr ''PREPARACAO'')])],
      objects = [((''notas'', ''1700000000000-nota.pdf''),
                  \<lparr>content = ''%PDF'', contentType = ''application/pdf'',
                   metadata = [(''idpedido'', ''X'')]\<rparr>)],
      calls = []\<rparr>
   = (Inl NotFound,
      \<lparr>pedidos = [(''X'', [(''idPedido'', JStr ''X''), (''status'', JStr ''PREPARACAO'')])],
       objects = [((''notas'', ''1700000000000-nota.pdf''),
                  \<lparr>content = ''%PDF'', contentType = ''application/pdf'',
                   metadata = [(''idpedido'', ''X'')]\<rparr>)],
       calls = [HeadObjectCommand ''notas'' ''falta.pdf'']\<rparr>)"
  by (simp add: confirmacao_record_def decode_falta pdf_falta send_Head_def sent_def)

text \<open>
  C4, as stated, fails. The batch holds an event for an object that is not in the
  bucket, then an event for a PDF tagged with the order \<open>X\<close>. The first event fails
  (\<open>NotFound\<close>), the handler throws, and the second event is never processed: the
  order \<open>X\<close> keeps its status, although the second event alone would ship it.
\<close>

theorem intake_batch_not_isolated:
  "confirmacao_handler (fixed_clock 1700000000123)
     [\<lparr>bucket_name = ''notas'', object_key = ''falta.pdf''\<rparr>,
      \<lparr>bucket_name = ''notas'', object_key = ''1700000000000-nota.pdf''\<rparr>]
     \<lparr>pedidos = [(''X'', [(''idPedido'', JStr ''X''), (''status'', JStr ''PREPARACAO'')])],
      objects = [((''notas'', ''1700000000000-nota.pdf''),
                  \<lparr>content = ''%PDF'', contentType = ''application/pdf'',
                   metadata = [(''idpedido'', ''X'')]\<rparr>)],
      calls = []\<rparr>
   = (Inl NotFound,
      \<lparr>pedidos = [(''X'', [(''idPedido'', JStr ''X''), (''status'', JStr ''PREPARACAO'')])],
       objects = [((''notas'', ''1700000000000-nota.pdf''),
                  \<lparr>content = ''%PDF'', contentType = ''application/pdf'',
                   metadata = [(''idpedido'', ''X'')]\<rparr>)],
       calls = [HeadObjectCommand ''notas'' ''falta.pdf'']\<rparr>)
   \<and> pedidos (snd (confirmacao_handler (fixed_clock 1700000000123)
     [\<lparr>bucket_name = ''notas'', object_key = ''1700000000000-nota.pdf''\<rparr>]
     \<lparr>pedidos = [(''X'', [(''idPedido'', JStr ''X''), (''status'', JStr ''PREPARACAO'')])],
      objects = [((''notas'', ''1700000000000-nota.pdf''),
                  \<lparr>content = ''%PDF'', contentType = ''application/pdf'',
                   metadata = [(''idpedido'', ''X'')]\<rparr>)],
      calls = []\<rparr>))
     = [(''X'', [(''idPedido'', JStr ''X''), (''status'', JStr ''ENVIADO''),
                (''dataEnvio'', JStr ''2023-11-14T22:13:20.123Z''),
                (''referenciaNota'', JStr ''1700000000000-nota.pdf'')])]"
  by (simp add: confirmacao_handler_def confirmacao_record_falta fixed_clock_def)
     (simp add: confirmacao_record_def decode_nota pdf_nota
        nomeArquivo_nota send_Head_def metadata_idPedido_def updateCommand_result sent_def
        iso_example set_attrs_def)

text \<open>
  C4, amended. The events of a batch are processed in order, and the first event whose
  processing fails ends the invocation with its error: the events before it have taken
  effect, and whatever follows it in the batch is not processed.
\<close>

theorem confirmacao_stops_at_first_failure:
  assumes "confirmacao_handler clock pre w = (Inr (reply 200 JNull), w1)"
    and "confirmacao_record (clock (length pre)) r w1 = (Inl e, w2)"
  shows "confirmacao_handler clock (pre @ r # post) w = (Inl e, w2)"
proof -
  from assms(1) have "confirmacao_loop clock 0 pre w = (Inr (), w1)"
    by (auto simp add: confirmacao_handler_def split: prod.splits sum.splits)
  from confirmacao_loop_abort [OF this, of r e w2 post] assms(2)
  show ?thesis by (simp add: confirmacao_handler_def)
qed

theorem confirmacao_stops_at_first_failure_witness:
  "confirmacao_handler (fixed_clock 1700000000123)
     ([\<lparr>bucket_name = ''notas'', object_key = ''notas/leia+me.txt''\<rparr>]
      @ \<lparr>bucket_name = ''notas'', object_key = ''falta.pdf''\<rparr>
      # [\<lparr>bucket_name = ''notas'', object_key = ''1700000000000-nota.pdf''\<rparr>])
     \<lparr>pedidos = [(''X'', [(''idPedido'', JStr ''X''), (''status'', JStr ''PREPARACAO'')])],
      objects = [((''notas'', ''1700000000000-nota.pdf''),
                  \<lparr>content = ''%PDF'', contentType = ''application/pdf'',
                   metadata = [(''idpedido'', ''X'')]\<rparr>)],
      calls = []\<rparr>
   = (Inl NotFound,
      \<lparr>pedidos = [(''X'', [(''idPedido'', JStr ''X''), (''status'', JStr ''PREPARACAO'')])],
       objects = [((''notas'', ''1700000000000-nota.pdf''),
                  \<lparr>content = ''%PDF'', contentType = ''application/pdf'',
                   metadata = [(''idpedido'', ''X'')]\<rparr>)],
       calls = [HeadObjectCommand ''notas'' ''falta.pdf'']\<rparr>)"
proof -
  let ?w = "\<lparr>pedidos = [(''X'', [(''idPedido'', JStr ''X''), (''status'', JStr ''PREPARACAO'')])],
      objects = [((''notas'', ''1700000000000-nota.pdf''),
                  \<lparr>content = ''%PDF'', contentType = ''application/pdf'',
                   metadata = [(''idpedido'', ''X'')]\<rparr>)],
      calls = []\<rparr>"
  let ?txt = "\<lparr>bucket_name = ''notas'', object_key = ''notas/leia+me.txt''\<rparr>"
  have a: "confirmacao_handler (fixed_clock 1700000000123) [?txt] ?w = (Inr (reply 200 JNull), ?w)"
    by (simp add: confirmacao_handler_def confirmacao_record_def decode_txt not_pdf_txt)
  have b: "confirmacao_record (fixed_clock 1700000000123 (length [?txt]))
             \<lparr>bucket_name = ''notas'', object_key = ''falta.pdf''\<rparr> ?w
           = (Inl NotFound, ?w\<lparr>calls := [HeadObjectCommand ''notas'' ''falta.pdf'']\<rparr>)"
    by (simp add: confirmacao_record_falta)
  from confirmacao_stops_at_first_failure [OF a b] show ?thesis by simp
qed

section \<open>The change detector\<close>

lemma item_prop_pedido_status [simp]:
  "item_prop (pedido_from_image st img) ''status'' = st"
  by (simp add: item_prop_def pedido_from_image_def)

lemma item_prop_pedido_email [simp]:
  "item_prop (pedido_from_image st img) ''emailCliente'' = opt_S (Some img) ''emailCliente''"
  by (simp add: item_prop_def pedido_from_image_def)

text \<open>
  The rule of the change detector, for a record that carries its new image and whose
  new status is not the name of a property inherited from \<open>Object.prototype\<close>: the
  message is handed to the transport exactly when the record is a \<open>MODIFY\<close>, the
  status changed, a template is there for the new status and the customer's address
  is not empty; in every other case the record is skipped without an error.
\<close>

lemma notificacao_record_rule:
  assumes "NewImage r = Some img"
    and "emailTemplates (opt_S (Some img) ''status'') \<noteq> Inherited"
  shows "notificacao_record ses r sb =
     (if eventName r = ''MODIFY''
         \<and> opt_S (OldImage r) ''status'' \<noteq> opt_S (Some img) ''status''
         \<and> emailTemplates (opt_S (Some img) ''status'') \<noteq> Absent
         \<and> truthy (opt_S (Some img) ''emailCliente'')
      then
        (case emailTemplates (opt_S (Some img) ''status'') of
           Own t \<Rightarrow>
             (case ses \<lparr>ToAddresses = [opt_S (Some img) ''emailCliente''], template_of = t,
                        pedido_of = pedido_from_image (opt_S (Some img) ''status'') img\<rparr> of
                Inl e \<Rightarrow> (Inl e, sb)
              | Inr i \<Rightarrow> (Inr (), sb @ [\<lparr>ToAddresses = [opt_S (Some img) ''emailCliente''],
                        template_of = t,
                        pedido_of = pedido_from_image (opt_S (Some img) ''status'') img\<rparr>]))
         | _ \<Rightarrow> (Inr (), sb))
      else (Inr (), sb))"
  using assms
  by (simp add: notificacao_record_def Let_def split: template_lookup.splits sum.splits)

lemma parseFloat_10_5: "parseFloat_str ''10.5'' = Fin 10.5"
  by (simp add: parseFloat_str_def is_space_def wide_space_def is_digit_def nat_of_digits_def digit_val_def
        exponent_of_def scale10_def Let_def)

lemma pedido_modify_record:
  "pedido_from_image (JStr new)
     [(''idPedido'', AV_S oid), (''emailCliente'', AV_S mail),
      (''nomeCliente'', AV_S ''Ana''), (''valor'', AV_N ''10.5''), (''status'', AV_S new)]
   = [(''idPedido'', JStr oid), (''emailCliente'', JStr mail), (''nomeCliente'', JStr ''Ana''),
      (''valor'', JNum (Fin 10.5)), (''data'', JUndefined), (''status'', JStr new),
      (''referenciaNota'', JNull), (''dataEnvio'', JNull)]"
  by (simp add: pedido_from_image_def opt_S_def opt_N_def js_or_def parseFloat_10_5)

lemma tmpl_constructor: "emailTemplates (JStr ''constructor'') = Inherited"
  by (simp add: emailTemplates_def object_prototype_names_def)

lemma tmpl_preparacao: "emailTemplates (JStr ''PREPARACAO'') = Own PREPARACAO"
  by (simp add: emailTemplates_def)

text \<open>
  C6. The skip for a status without template misses the names that every object
  inherits. Here an order goes from \<open>PREPARACAO\<close> to the status \<open>constructor\<close>:
  \<open>emailTemplates['constructor']\<close> is truthy, the handler goes on to build the message,
  the call of \<open>template.body\<close> throws a TypeError, and the invocation fails; no
  message is sent. A status without template was to be a skip that is not fatal.
\<close>

theorem inherited_status_breaks_batch:
  "notificacao_handler (ses_refusing ''nobody'')
     [modify_record ''p1'' ''ana@loja.example'' ''PREPARACAO'' ''constructor''] []
   = (Inl TypeError, [])"
  by (simp add: notificacao_handler_def notificacao_record_def modify_record_def opt_S_def
        tmpl_constructor Let_def)

text \<open>A \<open>MODIFY\<close> record without its new image fails in the same way: the statuses
  are read with \<open>?.\<close>, the other attributes are not.\<close>

lemma missing_new_image_breaks_batch:
  "notificacao_handler ses
     [\<lparr>eventName = ''MODIFY'', NewImage = None,
       OldImage = Some [(''idPedido'', AV_S ''p1''), (''status'', AV_S ''PREPARACAO'')]\<rparr>] sb
   = (Inl TypeError, sb)"
  by (simp add: notificacao_handler_def notificacao_record_def opt_S_def Let_def)

lemma notificacao_loop_abort:
  assumes "notificacao_loop ses pre sb = (Inr (), sb1)"
    and "notificacao_record ses r sb1 = (Inl e, sb2)"
  shows "notificacao_loop ses (pre @ r # post) sb = (Inl e, sb2)"
  using assms
proof (induction pre arbitrary: sb)
  case Nil
  then show ?case by simp
next
  case (Cons a pre)
  then show ?case by (auto split: prod.splits sum.splits)
qed

lemma record_accepted:
  "mail \<noteq> [] \<Longrightarrow> mail \<noteq> bad \<Longrightarrow>
   notificacao_record (ses_refusing bad)
      (modify_record oid mail ''RECEBIMENTO'' ''PREPARACAO'') sb
   = (Inr (), sb @ [\<lparr>ToAddresses = [JStr mail], template_of = PREPARACAO,
         pedido_of = [(''idPedido'', JStr oid), (''emailCliente'', JStr mail),
                      (''nomeCliente'', JStr ''Ana''), (''valor'', JNum (Fin 10.5)),
                      (''data'', JUndefined), (''status'', JStr ''PREPARACAO''),
                      (''referenciaNota'', JNull), (''dataEnvio'', JNull)]\<rparr>])"
  by (simp add: notificacao_record_def modify_record_def Let_def opt_S_def opt_N_def
        tmpl_preparacao pedido_from_image_def js_or_def parseFloat_10_5 item_prop_def
        ses_refusing_def)

lemma record_refused:
  "bad \<noteq> [] \<Longrightarrow>
   notificacao_record (ses_refusing bad)
      (modify_record oid bad ''RECEBIMENTO'' ''PREPARACAO'') sb
   = (Inl (TransportError ''MessageRejected''), sb)"
  by (simp add: notificacao_record_def modify_record_def Let_def opt_S_def opt_N_def
        tmpl_preparacao pedido_from_image_def js_or_def parseFloat_10_5 item_prop_def
        ses_refusing_def)

text \<open>
  C3, as stated, fails. The transport refuses the address of the first record and
  accepts any other. The handler throws at the first record and the second, which
  alone is notified, gets no message.
\<close>

theorem notification_batch_not_isolated:
  "notificacao_handler (ses_refusing ''ruim@loja.example'')
     [modify_record ''p1'' ''ruim@loja.example'' ''RECEBIMENTO'' ''PREPARACAO'',
      modify_record ''p2'' ''ana@loja.example'' ''RECEBIMENTO'' ''PREPARACAO''] []
   = (Inl (TransportError ''MessageRejected''), [])
   \<and> notificacao_handler (ses_refusing ''ruim@loja.example'')
     [modify_record ''p2'' ''ana@loja.example'' ''RECEBIMENTO'' ''PREPARACAO''] []
   = (Inr (reply 200 JNull),
      [\<lparr>ToAddresses = [JStr ''ana@loja.example''], template_of = PREPARACAO,
         pedido_of = [(''idPedido'', JStr ''p2''), (''emailCliente'', JStr ''ana@loja.example''),
                      (''nomeCliente'', JStr ''Ana''), (''valor'', JNum (Fin 10.5)),
                      (''data'', JUndefined), (''status'', JStr ''PREPARACAO''),
                      (''referenciaNota'', JNull), (''dataEnvio'', JNull)]\<rparr>])"
  by (simp add: notificacao_handler_def record_accepted record_refused)

text \<open>
  C3, amended. The records of a batch are processed in order, and the first record
  whose processing fails ends the invocation with its error: the messages of the
  records before it have been sent, and no record after it is processed.
\<close>

theorem notificacao_stops_at_first_failure:
  assumes "notificacao_handler ses pre sb = (Inr (reply 200 JNull), sb1)"
    and "notificacao_record ses r sb1 = (Inl e, sb2)"
  shows "notificacao_handler ses (pre @ r # post) sb = (Inl e, sb2)"
proof -
  from assms(1) have "notificacao_loop ses pre sb = (Inr (), sb1)"
    by (auto simp add: notificacao_handler_def split: prod.splits sum.splits)
  from notificacao_loop_abort [OF this assms(2), of post]
  show ?thesis by (simp add: notificacao_handler_def)
qed

theorem notificacao_stops_at_first_failure_witness:
  "notificacao_handler (ses_refusing ''ruim@loja.example'')
     ([modify_record ''p0'' ''bia@loja.example'' ''RECEBIMENTO'' ''PREPARACAO'']
      @ modify_record ''p1'' ''ruim@loja.example'' ''RECEBIMENTO'' ''PREPARACAO''
      # [modify_record ''p2'' ''ana@loja.example'' ''RECEBIMENTO'' ''PREPARACAO'']) []
   = (Inl (TransportError ''MessageRejected''),
      [\<lparr>ToAddresses = [JStr ''bia@loja.example''], template_of = PREPARACAO,
         pedido_of = [(''idPedido'', JStr ''p0''), (''emailCliente'', JStr ''bia@loja.example''),
                      (''nomeCliente'', JStr ''Ana''), (''valor'', JNum (Fin 10.5)),
                      (''data'', JUndefined), (''status'', JStr ''PREPARACAO''),
                      (''referenciaNota'', JNull), (''dataEnvio'', JNull)]\<rparr>])"
proof -
  let ?ses = "ses_refusing ''ruim@loja.example''"
  let ?m = "\<lparr>ToAddresses = [JStr ''bia@loja.example''], template_of = PREPARACAO,
         pedido_of = [(''idPedido'', JStr ''p0''), (''emailCliente'', JStr ''bia@loja.example''),
                      (''nomeCliente'', JStr ''Ana''), (''valor'', JNum (Fin 10.5)),
                      (''data'', JUndefined), (''status'', JStr ''PREPARACAO''),
                      (''referenciaNota'', JNull), (''dataEnvio'', JNull)]\<rparr>"
  have a: "notificacao_handler ?ses
             [modify_record ''p0'' ''bia@loja.example'' ''RECEBIMENTO'' ''PREPARACAO''] []
           = (Inr (reply 200 JNull), [?m])"
    by (simp add: notificacao_handler_def record_accepted)
  have b: "notificacao_record ?ses
             (modify_record ''p1'' ''ruim@loja.example'' ''RECEBIMENTO'' ''PREPARACAO'') [?m]
           = (Inl (TransportError ''MessageRejected''), [?m])"
    by (simp add: record_refused)
  from notificacao_stops_at_first_failure [OF a b] show ?thesis by simp
qed


section \<open>Creating an order\<close>

lemma get_prop_field:
  "body \<noteq> JUndefined \<Longrightarrow> body \<noteq> JNull \<Longrightarrow> get_prop body k = Inr (field body k)"
  by (cases body) (simp_all add: field_def)

lemma post_pedidos_nullish:
  "body = JUndefined \<or> body = JNull \<Longrightarrow> post_pedidos uuid now body w = (reply 500 JNull, w)"
  by (auto simp add: post_pedidos_def)

lemma send_Put_pedidos:
  "fst (send_Put it w) \<noteq> Inr () \<Longrightarrow> pedidos (snd (send_Put it w)) = pedidos w"
  by (auto simp add: send_Put_def sent_pedidos split: option.splits if_splits)

text \<open>A request with the three fields and no status: the order is stored with the
  status \<open>RECEBIDO\<close>.\<close>

lemma post_pedidos_default:
  assumes "e \<noteq> []" and "n \<noteq> []" and "x \<noteq> 0" and "\<bar>x\<bar> \<le> 9007199254740991"
    and "uuid \<noteq> []" and "length uuid \<le> 2048"
  shows "post_pedidos uuid now
           (JObj [(''emailCliente'', JStr e), (''nomeCliente'', JStr n), (''valor'', JNum (Fin x))]) w
     = (reply 201 (JObj [(''pedido'', JObj
           [(''idPedido'', JStr uuid), (''emailCliente'', JStr e), (''nomeCliente'', JStr n),
            (''valor'', JNum (Fin x)), (''data'', JStr (toISOString now)),
            (''status'', JStr ''RECEBIDO''), (''referenciaNota'', JNull), (''dataEnvio'', JNull)])]),
        sent (PutCommand
           [(''idPedido'', JStr uuid), (''emailCliente'', JStr e), (''nomeCliente'', JStr n),
            (''valor'', JNum (Fin x)), (''data'', JStr (toISOString now)),
            (''status'', JStr ''RECEBIDO''), (''referenciaNota'', JNull), (''dataEnvio'', JNull)])
          (w\<lparr>pedidos := AList.update uuid
           [(''idPedido'', JStr uuid), (''emailCliente'', JStr e), (''nomeCliente'', JStr n),
            (''valor'', JNum (Fin x)), (''data'', JStr (toISOString now)),
            (''status'', JStr ''RECEBIDO''), (''referenciaNota'', JNull), (''dataEnvio'', JNull)]
           (pedidos w)\<rparr>))"
  using assms
  by (simp add: post_pedidos_def field_def js_or_def send_Put_def valid_key_def Let_def)

lemma post_pedidos_with_status:
  assumes "e \<noteq> []" and "n \<noteq> []" and "x \<noteq> 0" and "\<bar>x\<bar> \<le> 9007199254740991"
    and "uuid \<noteq> []" and "length uuid \<le> 2048"
  shows "post_pedidos uuid now
           (JObj [(''emailCliente'', JStr e), (''nomeCliente'', JStr n), (''valor'', JNum (Fin x)),
                  (''status'', JStr st)]) w
     = (reply 201 (JObj [(''pedido'', JObj
           [(''idPedido'', JStr uuid), (''emailCliente'', JStr e), (''nomeCliente'', JStr n),
            (''valor'', JNum (Fin x)), (''data'', JStr (toISOString now)),
            (''status'', JStr st), (''referenciaNota'', JNull), (''dataEnvio'', JNull)])]),
        sent (PutCommand
           [(''idPedido'', JStr uuid), (''emailCliente'', JStr e), (''nomeCliente'', JStr n),
            (''valor'', JNum (Fin x)), (''data'', JStr (toISOString now)),
            (''status'', JStr st), (''referenciaNota'', JNull), (''dataEnvio'', JNull)])
          (w\<lparr>pedidos := AList.update uuid
           [(''idPedido'', JStr uuid), (''emailCliente'', JStr e), (''nomeCliente'', JStr n),
            (''valor'', JNum (Fin x)), (''data'', JStr (toISOString now)),
            (''status'', JStr st), (''referenciaNota'', JNull), (''dataEnvio'', JNull)]
           (pedidos w)\<rparr>))"
  using assms
  by (simp add: post_pedidos_def field_def js_or_def send_Put_def valid_key_def Let_def)

lemma parseFloat_abc: "parseFloat_str ''abc'' = NaN"
  by (simp add: parseFloat_str_def is_space_def wide_space_def is_digit_def Let_def)

text \<open>
  C5, as stated, fails. A request with the amount \<open>-5\<close> is answered 201 and the order
  is persisted with that amount: the check is \<open>!valor\<close>, which a negative number
  passes. And a request with the amount \<open>abc\<close>, which is no number, is not answered
  with a validation error: the check lets it pass, the store's client refuses the NaN
  that \<open>parseFloat\<close> makes of it, and the answer is 500 (nothing is persisted).
\<close>

theorem negative_amount_is_persisted:
  "post_pedidos ''3f2a'' 1700000000123
     (JObj [(''emailCliente'', JStr ''ana@loja.example''), (''nomeCliente'', JStr ''Ana''),
            (''valor'', JNum (Fin (- 5)))])
     \<lparr>pedidos = [], objects = [], calls = []\<rparr>
   = (reply 201 (JObj [(''pedido'', JObj
        [(''idPedido'', JStr ''3f2a''), (''emailCliente'', JStr ''ana@loja.example''),
         (''nomeCliente'', JStr ''Ana''), (''valor'', JNum (Fin (- 5))),
         (''data'', JStr ''2023-11-14T22:13:20.123Z''), (''status'', JStr ''RECEBIDO''),
         (''referenciaNota'', JNull), (''dataEnvio'', JNull)])]),
      \<lparr>pedidos = [(''3f2a'',
        [(''idPedido'', JStr ''3f2a''), (''emailCliente'', JStr ''ana@loja.example''),
         (''nomeCliente'', JStr ''Ana''), (''valor'', JNum (Fin (- 5))),
         (''data'', JStr ''2023-11-14T22:13:20.123Z''), (''status'', JStr ''RECEBIDO''),
         (''referenciaNota'', JNull), (''dataEnvio'', JNull)])],
       objects = [],
       calls = [PutCommand
        [(''idPedido'', JStr ''3f2a''), (''emailCliente'', JStr ''ana@loja.example''),
         (''nomeCliente'', JStr ''Ana''), (''valor'', JNum (Fin (- 5))),
         (''data'', JStr ''2023-11-14T22:13:20.123Z''), (''status'', JStr ''RECEBIDO''),
         (''referenciaNota'', JNull), (''dataEnvio'', JNull)]]\<rparr>)
   \<and> post_pedidos ''3f2a'' 1700000000123
     (JObj [(''emailCliente'', JStr ''ana@loja.example''), (''nomeCliente'', JStr ''Ana''),
            (''valor'', JStr ''abc'')])
     \<lparr>pedidos = [], objects = [], calls = []\<rparr>
   = (reply 500 JNull,
      \<lparr>pedidos = [], objects = [],
       calls = [PutCommand
        [(''idPedido'', JStr ''3f2a''), (''emailCliente'', JStr ''ana@loja.example''),
         (''nomeCliente'', JStr ''Ana''), (''valor'', JNum NaN),
         (''data'', JStr ''2023-11-14T22:13:20.123Z''), (''status'', JStr ''RECEBIDO''),
         (''referenciaNota'', JNull), (''dataEnvio'', JNull)]]\<rparr>)"
  by (simp add: post_pedidos_default iso_example sent_def)
     (simp add: post_pedidos_def field_def js_or_def send_Put_def parseFloat_abc iso_example
        sent_def Let_def)

lemma post_pedidos_invalid:
  assumes "get_prop body ''emailCliente'' = Inr e"
    and "\<not> truthy e \<or> \<not> truthy (field body ''nomeCliente'') \<or> \<not> truthy (field body ''valor'')"
  shows "post_pedidos uuid now body w = (reply 400 JNull, w)"
  unfolding post_pedidos_def Let_def using assms by (simp only: sum.case if_True)

lemma post_pedidos_valid:
  assumes "get_prop body ''emailCliente'' = Inr e"
    and "\<not> (\<not> truthy e \<or> \<not> truthy (field body ''nomeCliente'') \<or> \<not> truthy (field body ''valor''))"
  shows "\<exists>p. post_pedidos uuid now body w =
           (case send_Put p w of
              (Inl e, w1) \<Rightarrow> (reply 500 JNull, w1)
            | (Inr u, w1) \<Rightarrow> (reply 201 (JObj [(''pedido'', JObj p)]), w1))
         \<and> map_of p ''idPedido'' = Some (JStr uuid)
         \<and> map_of p ''valor'' = Some (JNum (parseFloat (field body ''valor'')))"
  unfolding post_pedidos_def Let_def using assms
  by (simp only: sum.case if_False) (intro exI conjI, rule refl, simp_all)

text \<open>What a successful \<open>PutCommand\<close> tells: every attribute could be marshalled, and
  the item stands in the table under its key.\<close>

lemma send_Put_accepted:
  assumes "fst (send_Put p w) = Inr u" and "map_of p ''idPedido'' = Some (JStr uuid)"
  shows "list_all marshallable (map snd p)"
    and "map_of (pedidos (snd (send_Put p w))) uuid = Some p"
  using assms
  by (auto simp add: send_Put_def valid_key_def sent_pedidos update_conv'
        split: if_splits option.splits)

lemma send_Put_refused:
  assumes "map_of p a = Some v" and "\<not> marshallable v"
  shows "fst (send_Put p w) = Inl MarshallError"
proof -
  from assms(1) have "v \<in> set (map snd p)"
    by (metis map_of_SomeD image_eqI set_map snd_conv)
  with assms(2) have "\<not> list_all marshallable (map snd p)"
    by (auto simp add: list_all_iff)
  then show ?thesis by (simp add: send_Put_def)
qed

lemma marshallable_num: "marshallable (JNum n) \<Longrightarrow> is_finite n"
  by (cases n) (simp_all add: is_finite_def)

text \<open>
  C5, amended. For a request with a body: the answer is 400 exactly when
  \<open>emailCliente\<close>, \<open>nomeCliente\<close> or \<open>valor\<close> is absent or otherwise falsy (null,
  false, 0, NaN, the empty string), and then nothing is sent to the table. When the
  three are truthy and \<open>parseFloat(valor)\<close> is not a finite number, the answer is 500
  and the table is as before. Whenever the table changes, the three fields were
  truthy, the answer is 201, and the order stored under the new id has the finite
  number \<open>parseFloat(valor)\<close> as its amount; the sign of that number is not checked.
\<close>

theorem create_order_validation:
  assumes "body \<noteq> JUndefined" and "body \<noteq> JNull"
  shows "(statusCode (fst (post_pedidos uuid now body w)) = 400
            \<longleftrightarrow> \<not> truthy (field body ''emailCliente'') \<or> \<not> truthy (field body ''nomeCliente'')
                \<or> \<not> truthy (field body ''valor''))
       \<and> (statusCode (fst (post_pedidos uuid now body w)) = 400
            \<longrightarrow> snd (post_pedidos uuid now body w) = w)
       \<and> (pedidos (snd (post_pedidos uuid now body w)) \<noteq> pedidos w
            \<longrightarrow> truthy (field body ''emailCliente'') \<and> truthy (field body ''nomeCliente'')
                \<and> truthy (field body ''valor'')
                \<and> statusCode (fst (post_pedidos uuid now body w)) = 201)
       \<and> (pedidos (snd (post_pedidos uuid now body w)) \<noteq> pedidos w
            \<longrightarrow> is_finite (parseFloat (field body ''valor''))
                \<and> (\<exists>p. map_of (pedidos (snd (post_pedidos uuid now body w))) uuid = Some p
                       \<and> map_of p ''valor'' = Some (JNum (parseFloat (field body ''valor'')))))
       \<and> (truthy (field body ''emailCliente'') \<and> truthy (field body ''nomeCliente'')
            \<and> truthy (field body ''valor'') \<and> \<not> is_finite (parseFloat (field body ''valor''))
            \<longrightarrow> statusCode (fst (post_pedidos uuid now body w)) = 500
                \<and> pedidos (snd (post_pedidos uuid now body w)) = pedidos w)"
proof -
  define falsy where "falsy \<longleftrightarrow> \<not> truthy (field body ''emailCliente'')
      \<or> \<not> truthy (field body ''nomeCliente'') \<or> \<not> truthy (field body ''valor'')"
  define res where "res = post_pedidos uuid now body w"
  define amount where "amount = parseFloat (field body ''valor'')"
  have g: "get_prop body ''emailCliente'' = Inr (field body ''emailCliente'')"
    using assms by (rule get_prop_field)
  have main: "(statusCode (fst res) = 400 \<longleftrightarrow> falsy)
      \<and> (statusCode (fst res) = 400 \<longrightarrow> snd res = w)
      \<and> (pedidos (snd res) \<noteq> pedidos w \<longrightarrow> \<not> falsy \<and> statusCode (fst res) = 201)
      \<and> (pedidos (snd res) \<noteq> pedidos w \<longrightarrow> is_finite amount
            \<and> (\<exists>p. map_of (pedidos (snd res)) uuid = Some p
                   \<and> map_of p ''valor'' = Some (JNum amount)))
      \<and> (\<not> falsy \<and> \<not> is_finite amount
            \<longrightarrow> statusCode (fst res) = 500 \<and> pedidos (snd res) = pedidos w)"
  proof (cases falsy)
    case True
    then have "res = (reply 400 JNull, w)"
      unfolding res_def falsy_def by (rule post_pedidos_invalid [OF g])
    with True show ?thesis by (simp add: reply_def)
  next
    case False
    then obtain p where eq: "res =
           (case send_Put p w of
              (Inl e, w1) \<Rightarrow> (reply 500 JNull, w1)
            | (Inr u, w1) \<Rightarrow> (reply 201 (JObj [(''pedido'', JObj p)]), w1))"
      and pid: "map_of p ''idPedido'' = Some (JStr uuid)"
      and pval: "map_of p ''valor'' = Some (JNum amount)"
      unfolding res_def falsy_def amount_def using post_pedidos_valid [OF g] by blast
    show ?thesis
    proof (cases "fst (send_Put p w)")
      case (Inl e)
      then have "res = (reply 500 JNull, snd (send_Put p w))"
        by (cases "send_Put p w") (simp add: eq)
      moreover have "pedidos (snd (send_Put p w)) = pedidos w"
        using Inl by (simp add: send_Put_pedidos)
      ultimately show ?thesis using False by (simp add: reply_def)
    next
      case (Inr u)
      then have r: "res = (reply 201 (JObj [(''pedido'', JObj p)]), snd (send_Put p w))"
        by (cases "send_Put p w") (simp add: eq)
      have fin: "is_finite amount"
      proof (rule ccontr)
        assume "\<not> is_finite amount"
        then have "\<not> marshallable (JNum amount)" using marshallable_num by blast
        from send_Put_refused [OF pval this] Inr show False by simp
      qed
      have stored: "map_of (pedidos (snd res)) uuid = Some p"
        using send_Put_accepted(2) [OF Inr pid] by (simp add: r)
      from r fin stored pval False show ?thesis by (auto simp add: reply_def)
    qed
  qed
  show ?thesis using main unfolding falsy_def res_def amount_def by blast
qed

theorem create_order_validation_witness:
  "statusCode (fst (post_pedidos ''3f2a'' 1700000000123
      (JObj [(''emailCliente'', JStr ''ana@loja.example''), (''valor'', JNum (Fin 10))])
      \<lparr>pedidos = [], objects = [], calls = []\<rparr>)) = 400
   \<and> snd (post_pedidos ''3f2a'' 1700000000123
      (JObj [(''emailCliente'', JStr ''ana@loja.example''), (''valor'', JNum (Fin 10))])
      \<lparr>pedidos = [], objects = [], calls = []\<rparr>) = \<lparr>pedidos = [], objects = [], calls = []\<rparr>
   \<and> statusCode (fst (post_pedidos ''3f2a'' 1700000000123
      (JObj [(''emailCliente'', JStr ''ana@loja.example''), (''nomeCliente'', JStr ''Ana''),
             (''valor'', JNum (Fin 10))])
      \<lparr>pedidos = [], objects = [], calls = []\<rparr>)) = 201
   \<and> statusCode (fst (post_pedidos ''3f2a'' 1700000000123
      (JObj [(''emailCliente'', JStr ''ana@loja.example''), (''nomeCliente'', JStr ''Ana''),
             (''valor'', JStr ''abc'')])
      \<lparr>pedidos = [], objects = [], calls = []\<rparr>)) = 500"
proof -
  let ?w = "\<lparr>pedidos = [], objects = [], calls = []\<rparr>"
  let ?b1 = "JObj [(''emailCliente'', JStr ''ana@loja.example''), (''valor'', JNum (Fin 10))]"
  let ?b2 = "JObj [(''emailCliente'', JStr ''ana@loja.example''), (''nomeCliente'', JStr ''Ana''),
             (''valor'', JNum (Fin 10))]"
  let ?b3 = "JObj [(''emailCliente'', JStr ''ana@loja.example''), (''nomeCliente'', JStr ''Ana''),
             (''valor'', JStr ''abc'')]"
  have f: "\<not> truthy (field ?b1 ''nomeCliente'')" by (simp add: field_def)
  have a: "statusCode (fst (post_pedidos ''3f2a'' 1700000000123 ?b1 ?w)) = 400
           \<and> snd (post_pedidos ''3f2a'' 1700000000123 ?b1 ?w) = ?w"
    using create_order_validation [of ?b1 "''3f2a''" 1700000000123 ?w] f by blast
  have "pedidos (snd (post_pedidos ''3f2a'' 1700000000123 ?b2 ?w)) \<noteq> pedidos ?w"
    by (simp add: post_pedidos_default sent_def)
  then have b: "statusCode (fst (post_pedidos ''3f2a'' 1700000000123 ?b2 ?w)) = 201"
    using create_order_validation [of ?b2 "''3f2a''" 1700000000123 ?w] by blast
  have t: "truthy (field ?b3 ''emailCliente'') \<and> truthy (field ?b3 ''nomeCliente'')
            \<and> truthy (field ?b3 ''valor'') \<and> \<not> is_finite (parseFloat (field ?b3 ''valor''))"
    by (simp add: field_def parseFloat_abc is_finite_def)
  have c: "statusCode (fst (post_pedidos ''3f2a'' 1700000000123 ?b3 ?w)) = 500"
    using create_order_validation [of ?b3 "''3f2a''" 1700000000123 ?w] t by blast
  from a b c show ?thesis by blast
qed

section \<open>Uploading a document\<close>

text \<open>
  C9, as stated, fails. An upload names an order by an id of 2049 bytes, which the
  table has not: the table refuses the lookup, and the answer is 500, not 404.
  Nothing is written to the bucket.
\<close>

theorem upload_refused_id_is_500:
  "post_upload ''notas'' 1700000000000 1700000000123 (replicate 2049 CHR ''x'')
      (Some \<lparr>originalname = ''nota.pdf'', buffer = ''%PDF'', mimetype = ''application/pdf''\<rparr>)
      \<lparr>pedidos = [(''p1'', [(''idPedido'', JStr ''p1''), (''status'', JStr ''RECEBIDO'')])],
       objects = [], calls = []\<rparr>
   = (reply 500 JNull,
      \<lparr>pedidos = [(''p1'', [(''idPedido'', JStr ''p1''), (''status'', JStr ''RECEBIDO'')])],
       objects = [], calls = [GetCommand (JStr (replicate 2049 CHR ''x''))]\<rparr>)"
  by (simp add: post_upload_def send_Get_def valid_key_def sent_def)

text \<open>
  C9, amended. An upload with a file that names an order the table does not have
  reads the table once and leaves the bucket as it was: no \<open>PutObjectCommand\<close> is
  sent. The answer is 404 when the id is a key of the table (1 to 2048 bytes), and 500
  when the table refuses the lookup. An upload without a file is answered 400 before
  anything is sent to the table or to the bucket.
\<close>

theorem upload_checks_order_first:
  assumes "map_of (pedidos w) oid = None"
  shows "post_upload B now now' oid (Some f) w
           = (reply (if oid \<noteq> [] \<and> length oid \<le> 2048 then 404 else 500) JNull,
              sent (GetCommand (JStr oid)) w)
       \<and> objects (snd (post_upload B now now' oid (Some f) w)) = objects w
       \<and> filter is_put_object (calls (snd (post_upload B now now' oid (Some f) w)))
           = filter is_put_object (calls w)
       \<and> post_upload B now now' oid None w = (reply 400 JNull, w)"
  using assms
  by (auto simp add: post_upload_def send_Get_def valid_key_def sent_def is_put_object_def)

lemma lower_idPedido: "toLowerCase ''idPedido'' = ''idpedido''"
  by code_simp

lemma lower_dataUpload: "toLowerCase ''dataUpload'' = ''dataupload''"
  by code_simp

text \<open>For an order the table has, the file is written.\<close>

lemma upload_known_order_writes:
  assumes "oid \<noteq> []" and "length oid \<le> 2048" and "map_of (pedidos w) oid = Some it"
  shows "statusCode (fst (post_upload B now now' oid (Some f) w)) = 200"
    and "map_of (objects (snd (post_upload B now now' oid (Some f) w)))
           (B, dec_of_int now @ ''-'' @ originalname f)
         = Some \<lparr>content = buffer f, contentType = mimetype f,
                 metadata = [(''idpedido'', oid), (''dataupload'', toISOString now')]\<rparr>"
  using assms
  by (simp_all add: post_upload_def send_Get_def valid_key_def sent_def send_PutObject_def
        reply_def update_conv' Let_def lower_idPedido lower_dataUpload)

theorem upload_checks_order_first_witness:
  "post_upload ''notas'' 1700000000000 1700000000123 ''p9''
      (Some \<lparr>originalname = ''nota.pdf'', buffer = ''%PDF'', mimetype = ''application/pdf''\<rparr>)
      \<lparr>pedidos = [(''p1'', [(''idPedido'', JStr ''p1''), (''status'', JStr ''RECEBIDO'')])],
       objects = [], calls = []\<rparr>
   = (reply 404 JNull,
      \<lparr>pedidos = [(''p1'', [(''idPedido'', JStr ''p1''), (''status'', JStr ''RECEBIDO'')])],
       objects = [], calls = [GetCommand (JStr ''p9'')]\<rparr>)"
  using upload_checks_order_first [of
      "\<lparr>pedidos = [(''p1'', [(''idPedido'', JStr ''p1''), (''status'', JStr ''RECEBIDO'')])],
        objects = [], calls = []\<rparr>" "''p9''" "''notas''" 1700000000000 1700000000123
      "\<lparr>originalname = ''nota.pdf'', buffer = ''%PDF'', mimetype = ''application/pdf''\<rparr>"]
  by (simp add: sent_def)

section \<open>The promotion sweeper\<close>

text \<open>No order whose status is anything but \<open>RECEBIMENTO\<close> is ever selected.\<close>

lemma status_other_not_scanned:
  "map_of it ''status'' \<noteq> Some (JStr ''RECEBIMENTO'') \<Longrightarrow>
   it \<notin> set (fst (pedidosPendentes agora w))"
  by (auto simp add: pedidosPendentes_def send_Scan_def split: prod.splits)

lemma iso_t1: "toISOString 1700000000000 = ''2023-11-14T22:13:20.000Z''"
  by code_simp
lemma iso_t2: "toISOString 1700000300000 = ''2023-11-14T22:18:20.000Z''"
  by code_simp
lemma iso_t3: "toISOString 1700000480000 = ''2023-11-14T22:21:20.000Z''"
  by code_simp
lemma parse_t1: "parse_iso ''2023-11-14T22:13:20.000Z'' = Some 1700000000000"
  by code_simp
lemma parse_t2: "parse_iso ''2023-11-14T22:18:20.000Z'' = Some 1700000300000"
  by code_simp
lemma parse_t3: "parse_iso ''2023-11-14T22:21:20.000Z'' = Some 1700000480000"
  by code_simp

text \<open>
  C2. Three orders are created without a status, 10, 5 and 2 minutes before the sweep.
  Each is stored with the default status \<open>RECEBIDO\<close>; the sweep scans for the status
  \<open>RECEBIMENTO\<close>, so it finds none of them and selects nothing.
\<close>

theorem default_status_orders_never_swept:
  "map (\<lambda>it. (item_prop it ''idPedido'', item_prop it ''data'', item_prop it ''status''))
     (map snd (pedidos
       (snd (post_pedidos ''a3'' 1700000480000 order_body
         (snd (post_pedidos ''a2'' 1700000300000 order_body
           (snd (post_pedidos ''a1'' 1700000000000 order_body
             \<lparr>pedidos = [], objects = [], calls = []\<rparr>))))))))
   = [(JStr ''a1'', JStr ''2023-11-14T22:13:20.000Z'', JStr ''RECEBIDO''),
      (JStr ''a2'', JStr ''2023-11-14T22:18:20.000Z'', JStr ''RECEBIDO''),
      (JStr ''a3'', JStr ''2023-11-14T22:21:20.000Z'', JStr ''RECEBIDO'')]
   \<and> fst (pedidosPendentes 1700000600000
       (snd (post_pedidos ''a3'' 1700000480000 order_body
         (snd (post_pedidos ''a2'' 1700000300000 order_body
           (snd (post_pedidos ''a1'' 1700000000000 order_body
             \<lparr>pedidos = [], objects = [], calls = []\<rparr>))))))) = []"
  by (simp add: order_body_def post_pedidos_default sent_def item_prop_def iso_t1 iso_t2 iso_t3
        pedidosPendentes_def send_Scan_def)

theorem default_status_orders_never_swept_witness:
  "fst (pedidosPendentes 1700000600000
       (snd (post_pedidos ''a3'' 1700000480000 order_body
         (snd (post_pedidos ''a2'' 1700000300000 order_body
           (snd (post_pedidos ''a1'' 1700000000000 order_body
             \<lparr>pedidos = [], objects = [], calls = []\<rparr>))))))) = []"
  using default_status_orders_never_swept by blast

text \<open>The filter itself is right: had the same three orders been created with the
  status \<open>RECEBIMENTO\<close>, the sweep would select the two older ones.\<close>

lemma matching_status_orders_swept:
  "map (\<lambda>it. item_prop it ''idPedido'')
     (fst (pedidosPendentes 1700000600000
       (snd (post_pedidos ''a3'' 1700000480000 (order_body_with ''RECEBIMENTO'')
         (snd (post_pedidos ''a2'' 1700000300000 (order_body_with ''RECEBIMENTO'')
           (snd (post_pedidos ''a1'' 1700000000000 (order_body_with ''RECEBIMENTO'')
             \<lparr>pedidos = [], objects = [], calls = []\<rparr>))))))))
   = [JStr ''a1'', JStr ''a2'']"
  by (simp add: order_body_with_def post_pedidos_with_status sent_def item_prop_def
        iso_t1 iso_t2 iso_t3 parse_t1 parse_t2 parse_t3
        pedidosPendentes_def send_Scan_def pendente_def new_Date_def)

end
